theory Spec2Isabelle
  imports Main "HOL-Library.Char_ord" "HOL-Library.List_Lexorder"
begin

section \<open>The subcommand package \<^verbatim>\<open>sub\<close>: data model\<close>

text \<open>
  The development follows \<^verbatim>\<open>sub.go\<close> in its second form, the one with the exported
  fields \<^verbatim>\<open>Output\<close>, \<^verbatim>\<open>Help\<close> and \<^verbatim>\<open>Flags\<close>. The first form in the same file has
  the same \<^verbatim>\<open>Register\<close>, \<^verbatim>\<open>get\<close>, \<^verbatim>\<open>Run\<close> and help command and always writes to
  \<^verbatim>\<open>os.Stderr\<close>: it is the case \<open>Output = None\<close> of this model.

  Go strings are byte sequences compared bytewise, which is the lexicographic order of
  \<^typ>\<open>string\<close> over the order of \<^typ>\<open>char\<close> by code.
\<close>

subsection \<open>The world outside the Commander\<close>

text \<open>
  An \<^verbatim>\<open>io.Writer\<close> is identified by what it is: the process's standard error stream
  or some other writer, and the world records what has been written to each so far.
  The component \<open>vars\<close> is the state of the client program, where the variables bound
  to flags live.
\<close>

datatype writer = Stderr | Buffer nat

record 's world =
  written :: "writer \<Rightarrow> string"
  vars :: 's

definition Fprint :: "writer \<Rightarrow> string \<Rightarrow> 's world \<Rightarrow> 's world" where
  "Fprint wr s w = w\<lparr>written := (written w)(wr := written w wr @ s)\<rparr>"

text \<open>
  Error values: \<^verbatim>\<open>flag.ErrHelp\<close>, the value \<^verbatim>\<open>errors.New(msg)\<close> that the flag
  package's \<^verbatim>\<open>failf\<close> builds, and the error values of the commands themselves.
\<close>

datatype error = ErrHelp | FlagError string | CmdError string

text \<open>
  What the standard library and the process contribute, and this development leaves
  open: \<^verbatim>\<open>strconv.Quote\<close> (the verb \<^verbatim>\<open>%q\<close>), \<^verbatim>\<open>strings.TrimSpace\<close>, and
  \<^verbatim>\<open>filepath.Base(os.Args[0])\<close>.
\<close>

record stdlib =
  Quote :: "string \<Rightarrow> string"
  TrimSpace :: "string \<Rightarrow> string"
  Base_Args0 :: string

subsection \<open>Flags and flag sets (package \<^verbatim>\<open>flag\<close>)\<close>

text \<open>
  A \<^verbatim>\<open>flag.Value\<close> is one of the package's own value types or a type of the client.
  \<open>Custom b\<close> is a client type whose \<^verbatim>\<open>IsBoolFlag\<close> method answers \<open>b\<close> (or that has
  no such method, for \<open>b = False\<close>).
\<close>

datatype value_type =
  BoolValue | DurationValue | Float64Value | IntValue | StringValue | UintValue | Custom bool

record 's Flag =
  Usage :: string
  DefValue :: string
  ValueType :: value_type
  ZeroString :: string
  Set :: "string \<Rightarrow> 's \<Rightarrow> string option \<times> 's"

text \<open>
  \<open>Usage\<close> and \<open>DefValue\<close> are the fields of \<^verbatim>\<open>flag.Flag\<close>; the name is the key under
  which the flag stands in \<open>formal\<close>. \<open>Set\<close> is \<^verbatim>\<open>Value.Set\<close>: it answers the text of
  its error, if any, and updates the client's variables. \<open>ZeroString\<close> is what
  \<^verbatim>\<open>String()\<close> answers on the zero value of the flag's type, which \<^verbatim>\<open>isZeroValue\<close>
  compares the default with.

  A \<^verbatim>\<open>FlagSet\<close> made by \<^verbatim>\<open>flag.NewFlagSet(name, flag.ContinueOnError)\<close>. Its
  \<^verbatim>\<open>Usage\<close> function and its output writer are fixed by the code that makes the set,
  so they are arguments of \<open>Parse\<close> and \<open>PrintDefaults\<close> below, not fields that a
  declarator could change.
\<close>

record 's FlagSet =
  fs_name :: string
  formal :: "(string \<times> 's Flag) list"
  fs_args :: "string list"

definition NewFlagSet :: "string \<Rightarrow> 's FlagSet" where
  "NewFlagSet nm = \<lparr>fs_name = nm, formal = [], fs_args = []\<rparr>"

definition NArg :: "'s FlagSet \<Rightarrow> nat" where
  "NArg fs = length (fs_args fs)"

text \<open>\<^verbatim>\<open>FlagSet.Arg(i)\<close>: the empty string when \<open>i\<close> is out of range.\<close>

definition Arg :: "'s FlagSet \<Rightarrow> nat \<Rightarrow> string" where
  "Arg fs i = (if i < length (fs_args fs) then fs_args fs ! i else [])"

subsection \<open>Commands and the Commander\<close>

text \<open>
  The interface \<^verbatim>\<open>Command\<close> has two kinds of inhabitants: the commands of the client,
  given by their five methods, and the help command \<^verbatim>\<open>helpCmd\<close>, which holds no data
  of its own and reads the Commander it runs in (the help command of one Commander
  registered in another is not modelled). A declarator (\<^verbatim>\<open>Flags\<close>) is taken to do
  what its documentation says, declare flags: it is a function on flag sets, and the
  \<^verbatim>\<open>Run\<close> method of a client's command returns an error or none and a new world.
\<close>

record 's Cmd =
  cmd_Name :: string
  cmd_Desc :: string
  cmd_Help :: string
  cmd_Flags :: "'s FlagSet \<Rightarrow> 's FlagSet"
  cmd_Run :: "string list \<Rightarrow> 's world \<Rightarrow> error option \<times> 's world"

datatype 's Command = helpCmd | Cmd "'s Cmd"

record 's Commander =
  Output :: "writer option"
  Help :: string
  Flags :: "('s FlagSet \<Rightarrow> 's FlagSet) option"
  name :: string
  commands :: "'s Command list"

definition "output" :: "'s Commander \<Rightarrow> writer" where
  "output c = (case Output c of None \<Rightarrow> Stderr | Some wr \<Rightarrow> wr)"

definition HelpCmd :: "'s Commander \<Rightarrow> 's Command" where
  "HelpCmd c = helpCmd"

definition helpCmd_Help :: string where
  "helpCmd_Help =
     ''Usage: help [command]'' @ [CHR 0x0A, CHR 0x0A] @
     ''help displays a help summary for the entire set of commands or it'' @ [CHR 0x0A] @
     ''shows more detailed help for a specific named subcommand.''"

fun Name :: "'s Command \<Rightarrow> string" where
  "Name helpCmd = ''help''"
| "Name (Cmd u) = cmd_Name u"

fun Desc :: "'s Command \<Rightarrow> string" where
  "Desc helpCmd = ''show help for commands''"
| "Desc (Cmd u) = cmd_Desc u"

fun Command_Help :: "'s Command \<Rightarrow> string" where
  "Command_Help helpCmd = helpCmd_Help"
| "Command_Help (Cmd u) = cmd_Help u"

fun Command_Flags :: "'s Command \<Rightarrow> 's FlagSet \<Rightarrow> 's FlagSet" where
  "Command_Flags helpCmd fset = fset"
| "Command_Flags (Cmd u) fset = cmd_Flags u fset"

section \<open>The registry\<close>

text \<open>
  \<^verbatim>\<open>sort.Search(n, f)\<close> of the standard library: binary search for the least index in
  \<open>[0, n)\<close> at which \<open>f\<close> holds, \<open>n\<close> if there is none, for an \<open>f\<close> that is false on a
  prefix and true on the rest. The midpoint \<^verbatim>\<open>int(uint(i+j) >> 1)\<close> is \<open>(i + j) div 2\<close>.
\<close>

function Search_loop :: "(nat \<Rightarrow> bool) \<Rightarrow> nat \<Rightarrow> nat \<Rightarrow> nat" where
  "Search_loop f i j =
     (if i < j then
        (let h = (i + j) div 2
         in if \<not> f h then Search_loop f (h + 1) j else Search_loop f i h)
      else i)"
  by pat_completeness auto
termination
  by (relation "measure (\<lambda>(f, i, j). j - i)") auto

definition Search :: "nat \<Rightarrow> (nat \<Rightarrow> bool) \<Rightarrow> nat" where
  "Search n f = Search_loop f 0 n"

text \<open>
  \<^verbatim>\<open>Register\<close>. The slice expression
  \<^verbatim>\<open>append(c.commands[:i], append([]Command{cmd}, c.commands[i:]...)...)\<close> copies the tail
  before the outer \<^verbatim>\<open>append\<close> writes, so its value is the list below.
\<close>

definition Register :: "'s Commander \<Rightarrow> 's Command \<Rightarrow> 's Commander" where
  "Register c cmd =
     (let i = Search (length (commands c)) (\<lambda>i. Name cmd < Name (commands c ! i))
      in if i < length (commands c) \<and> Name cmd = Name (commands c ! i)
         then c\<lparr>commands := (commands c)[i := cmd]\<rparr>
         else c\<lparr>commands := take i (commands c) @ ([cmd] @ drop i (commands c))\<rparr>)"

fun get_loop :: "'s Command list \<Rightarrow> string \<Rightarrow> 's Command option" where
  "get_loop [] nm = None"
| "get_loop (cmd # cmds) nm = (if Name cmd = nm then Some cmd else get_loop cmds nm)"

text \<open>\<^verbatim>\<open>get\<close>: the first command of that name, \<open>None\<close> for Go's \<^verbatim>\<open>nil\<close>.\<close>

definition get :: "'s Commander \<Rightarrow> string \<Rightarrow> 's Command option" where
  "get c nm = get_loop (commands c) nm"

section \<open>Package \<^verbatim>\<open>flag\<close>: parsing and the defaults listing\<close>

definition NL :: string where
  "NL = [CHR 0x0A]"

definition TAB :: string where
  "TAB = [CHR 0x09]"

definition IsBoolFlag :: "'s Flag \<Rightarrow> bool" where
  "IsBoolFlag fl = (case ValueType fl of BoolValue \<Rightarrow> True | Custom b \<Rightarrow> b | _ \<Rightarrow> False)"

text \<open>
  The result of \<^verbatim>\<open>parseOne\<close>: \<open>Seen\<close> is \<^verbatim>\<open>(true, nil)\<close>, \<open>Finished\<close> is
  \<^verbatim>\<open>(false, nil)\<close>, \<open>Failed\<close> is \<^verbatim>\<open>(false, err)\<close>.
\<close>

datatype 's parse_step =
  Seen "'s FlagSet" "'s world" | Finished "'s FlagSet" | Failed error "'s world"

text \<open>
  \<^verbatim>\<open>failf\<close>: print the message and a newline to the set's output, call the set's
  \<^verbatim>\<open>Usage\<close>, answer \<^verbatim>\<open>errors.New(msg)\<close>.
\<close>

definition failf :: "writer \<Rightarrow> ('s world \<Rightarrow> 's world) \<Rightarrow> string \<Rightarrow> 's world \<Rightarrow> 's parse_step" where
  "failf out usage msg w = Failed (FlagError msg) (usage (Fprint out (msg @ NL) w))"

text \<open>
  The loop of \<^verbatim>\<open>parseOne\<close> that looks for \<^verbatim>\<open>=\<close> from the second byte of the name
  on: the name, whether there is a value, the value.
\<close>

definition split_value :: "string \<Rightarrow> string \<times> bool \<times> string" where
  "split_value nm =
     (case nm of
        [] \<Rightarrow> ([], False, [])
      | x # xs \<Rightarrow>
          (case dropWhile (\<lambda>y. y \<noteq> CHR ''='') xs of
             [] \<Rightarrow> (nm, False, [])
           | _ # v \<Rightarrow> (x # takeWhile (\<lambda>y. y \<noteq> CHR ''='') xs, True, v)))"

text \<open>What \<^verbatim>\<open>parseOne\<close> does once it holds a declared flag and the text for it.\<close>

definition set_flag ::
  "writer \<Rightarrow> ('s world \<Rightarrow> 's world) \<Rightarrow> 's Flag \<Rightarrow> string \<Rightarrow> (string \<Rightarrow> string) \<Rightarrow>
   's FlagSet \<Rightarrow> 's world \<Rightarrow> 's parse_step" where
  "set_flag out usage fl v msg fs w =
     (case Set fl v (vars w) of
        (Some e, st) \<Rightarrow> failf out usage (msg e) (w\<lparr>vars := st\<rparr>)
      | (None, st) \<Rightarrow> Seen fs (w\<lparr>vars := st\<rparr>))"

definition parseOne ::
  "stdlib \<Rightarrow> writer \<Rightarrow> ('s world \<Rightarrow> 's world) \<Rightarrow> 's FlagSet \<Rightarrow> 's world \<Rightarrow> 's parse_step" where
  "parseOne env out usage fs w =
     (case fs_args fs of
        [] \<Rightarrow> Finished fs
      | s # rest \<Rightarrow>
          if length s < 2 \<or> s ! 0 \<noteq> CHR ''-'' then Finished fs
          else if s ! 1 = CHR ''-'' \<and> length s = 2 then Finished (fs\<lparr>fs_args := rest\<rparr>)
          else
            let numMinuses = (if s ! 1 = CHR ''-'' then 2 else 1);
                nm = drop numMinuses s
            in if length nm = 0 \<or> nm ! 0 = CHR ''-'' \<or> nm ! 0 = CHR ''=''
               then failf out usage (''bad flag syntax: '' @ s) w
               else
                 (case split_value nm of (nm, hasValue, v) \<Rightarrow>
                   (case map_of (formal fs) nm of
                      None \<Rightarrow>
                        if nm = ''help'' \<or> nm = ''h'' then Failed ErrHelp (usage w)
                        else failf out usage (''flag provided but not defined: -'' @ nm) w
                    | Some fl \<Rightarrow>
                        if IsBoolFlag fl then
                          (if hasValue
                           then set_flag out usage fl v
                                  (\<lambda>e. ''invalid boolean value '' @ Quote env v @ '' for -'' @ nm @ '': '' @ e)
                                  (fs\<lparr>fs_args := rest\<rparr>) w
                           else set_flag out usage fl ''true''
                                  (\<lambda>e. ''invalid boolean flag '' @ nm @ '': '' @ e)
                                  (fs\<lparr>fs_args := rest\<rparr>) w)
                        else
                          (case (hasValue, rest) of
                             (True, _) \<Rightarrow>
                               set_flag out usage fl v
                                 (\<lambda>e. ''invalid value '' @ Quote env v @ '' for flag -'' @ nm @ '': '' @ e)
                                 (fs\<lparr>fs_args := rest\<rparr>) w
                           | (False, v' # rest') \<Rightarrow>
                               set_flag out usage fl v'
                                 (\<lambda>e. ''invalid value '' @ Quote env v' @ '' for flag -'' @ nm @ '': '' @ e)
                                 (fs\<lparr>fs_args := rest'\<rparr>) w
                           | (False, []) \<Rightarrow>
                               failf out usage (''flag needs an argument: -'' @ nm) w))))"

text \<open>
  The loop of \<^verbatim>\<open>FlagSet.Parse\<close> under \<^verbatim>\<open>ContinueOnError\<close>: the error if there is
  one, the flag set with the arguments left, and the world.
\<close>

function Parse_loop ::
  "stdlib \<Rightarrow> writer \<Rightarrow> ('s world \<Rightarrow> 's world) \<Rightarrow> 's FlagSet \<Rightarrow> 's world \<Rightarrow>
   error option \<times> 's FlagSet \<times> 's world" where
  "Parse_loop env out usage fs w =
     (case parseOne env out usage fs w of
        Seen fs' w' \<Rightarrow> Parse_loop env out usage fs' w'
      | Finished fs' \<Rightarrow> (None, fs', w)
      | Failed err w' \<Rightarrow> (Some err, fs, w'))"
  by pat_completeness auto
termination
proof (relation "measure (\<lambda>(env, out, usage, fs, w). length (fs_args fs))")
  show "wf (measure (\<lambda>(env, out, usage, fs, w). length (fs_args fs)))"
    by simp
next
  fix env :: stdlib and out usage and fs fs' :: "'s FlagSet" and w w' :: "'s world"
  assume "parseOne env out usage fs w = Seen fs' w'"
  then have "length (fs_args fs') < length (fs_args fs)"
    by (auto simp: parseOne_def set_flag_def failf_def Let_def
        split: list.splits if_splits prod.splits option.splits bool.splits)
  then show "((env, out, usage, fs', w'), (env, out, usage, fs, w))
      \<in> measure (\<lambda>(env, out, usage, fs, w). length (fs_args fs))"
    by simp
qed

definition Parse ::
  "stdlib \<Rightarrow> writer \<Rightarrow> ('s world \<Rightarrow> 's world) \<Rightarrow> 's FlagSet \<Rightarrow> string list \<Rightarrow> 's world \<Rightarrow>
   error option \<times> 's FlagSet \<times> 's world" where
  "Parse env out usage fs arguments w = Parse_loop env out usage (fs\<lparr>fs_args := arguments\<rparr>) w"

text \<open>
  \<^verbatim>\<open>UnquoteUsage\<close>: a name between the first two back quotes of the usage text, or
  else the name of the value's type.
\<close>

definition type_name :: "'s Flag \<Rightarrow> string" where
  "type_name fl =
     (case ValueType fl of
        BoolValue \<Rightarrow> []
      | Custom b \<Rightarrow> (if b then [] else ''value'')
      | DurationValue \<Rightarrow> ''duration''
      | Float64Value \<Rightarrow> ''float''
      | IntValue \<Rightarrow> ''int''
      | StringValue \<Rightarrow> ''string''
      | UintValue \<Rightarrow> ''uint'')"

definition UnquoteUsage :: "'s Flag \<Rightarrow> string \<times> string" where
  "UnquoteUsage fl =
     (let u = Usage fl; notq = (\<lambda>x. x \<noteq> CHR 0x60)
      in case dropWhile notq u of
           [] \<Rightarrow> (type_name fl, u)
         | _ # r \<Rightarrow>
             (case dropWhile notq r of
                [] \<Rightarrow> (type_name fl, u)
              | _ # r' \<Rightarrow> (takeWhile notq r, takeWhile notq u @ takeWhile notq r @ r')))"

text \<open>The text that the function passed to \<^verbatim>\<open>VisitAll\<close> in \<^verbatim>\<open>PrintDefaults\<close> prints for one flag.\<close>

definition flag_line :: "stdlib \<Rightarrow> string \<Rightarrow> 's Flag \<Rightarrow> string" where
  "flag_line env nm fl =
     (case UnquoteUsage fl of (un, usage) \<Rightarrow>
        (let b = ''  -'' @ nm;
             b = (if length un > 0 then b @ '' '' @ un else b);
             b = (if length b \<le> 4 then b @ TAB else b @ NL @ ''    '' @ TAB);
             b = b @ concat (map (\<lambda>x. if x = CHR 0x0A then NL @ ''    '' @ TAB else [x]) usage);
             b = (if DefValue fl \<noteq> ZeroString fl
                  then (if ValueType fl = StringValue
                        then b @ '' (default '' @ Quote env (DefValue fl) @ '')''
                        else b @ '' (default '' @ DefValue fl @ '')'')
                  else b)
         in b @ NL))"

text \<open>
  \<^verbatim>\<open>PrintDefaults\<close>: what it writes to the set's output, the flags in the order of
  their names.
\<close>

definition PrintDefaults :: "stdlib \<Rightarrow> 's FlagSet \<Rightarrow> string" where
  "PrintDefaults env fs = concat (map (\<lambda>(nm, fl). flag_line env nm fl) (sort_key fst (formal fs)))"

section \<open>The help command\<close>

text \<open>
  \<^verbatim>\<open>helpCmd.Run\<close>. In summary mode the flag set for the global options is a new one
  whose output is never set, so its \<^verbatim>\<open>PrintDefaults\<close> writes to \<^verbatim>\<open>os.Stderr\<close>; in
  detail mode the defaults go to the buffer \<^verbatim>\<open>optionBuf\<close> and from there to the
  Commander's output.
\<close>

fun helpCmd_Run ::
  "stdlib \<Rightarrow> 's Commander \<Rightarrow> string list \<Rightarrow> 's world \<Rightarrow> error option \<times> 's world" where
  "helpCmd_Run env h [] w =
     (let nm = name h;
          nm = (if nm = [] then Base_Args0 env else nm);
          globalOptions = (if Flags h \<noteq> None then '' [global options]'' else []);
          w = Fprint (output h)
                (''Usage: '' @ nm @ globalOptions @ '' <subcommand> [subcommand arguments]'' @ NL) w;
          w = (if Help h \<noteq> [] then Fprint (output h) (NL @ TrimSpace env (Help h) @ NL) w else w);
          w = (case Flags h of
                 None \<Rightarrow> w
               | Some decl \<Rightarrow>
                   (let w = Fprint (output h) (NL @ ''Global Options:'' @ NL) w;
                        fset = decl (NewFlagSet nm)
                    in Fprint Stderr (PrintDefaults env fset) w));
          w = Fprint (output h) (NL @ ''Commands:'' @ NL) w;
          w = foldl (\<lambda>w cmd. Fprint (output h) (TAB @ Name cmd @ TAB @ TAB @ Desc cmd @ NL) w)
                w (commands h)
      in (None, w))"
| "helpCmd_Run env h (a # as) w =
     (case get h a of
        None \<Rightarrow>
          (let w = Fprint (output h) (''Error: No such command: '' @ Quote env a @ NL @ NL) w;
               w = snd (helpCmd_Run env h [] w)
           in (Some ErrHelp, w))
      | Some cmd \<Rightarrow>
          (let w = (if Command_Help cmd \<noteq> []
                    then Fprint (output h) (TrimSpace env (Command_Help cmd) @ NL) w else w);
               fset = Command_Flags cmd (NewFlagSet (Name cmd));
               optionBuf = PrintDefaults env fset;
               w = (if length optionBuf > 0
                    then Fprint (output h) optionBuf (Fprint (output h) (NL @ ''Options:'' @ NL) w)
                    else w)
           in (None, w)))"

text \<open>The method \<^verbatim>\<open>Run\<close> of a command registered in the Commander \<open>c\<close>.\<close>

fun Command_Run ::
  "stdlib \<Rightarrow> 's Commander \<Rightarrow> 's Command \<Rightarrow> string list \<Rightarrow> 's world \<Rightarrow> error option \<times> 's world" where
  "Command_Run env c helpCmd args w = helpCmd_Run env c args w"
| "Command_Run env c (Cmd u) args w = cmd_Run u args w"

section \<open>Dispatch\<close>

text \<open>
  \<^verbatim>\<open>Commander.Run\<close> either panics or returns: its error (\<open>None\<close> for \<^verbatim>\<open>nil\<close>), the
  Commander, whose field \<open>name\<close> it has set, and the world. The two flag sets are made
  by \<^verbatim>\<open>flag.NewFlagSet\<close> and keep the default output, \<^verbatim>\<open>os.Stderr\<close>.
\<close>

datatype panic = IndexOutOfRange

datatype 's outcome = Panic panic | Return "error option" "'s Commander" "'s world"

definition Run :: "stdlib \<Rightarrow> 's Commander \<Rightarrow> string list \<Rightarrow> 's world \<Rightarrow> 's outcome" where
  "Run env c args w =
     (case args of
        [] \<Rightarrow> Panic IndexOutOfRange
      | a0 # rest \<Rightarrow>
          (let c = c\<lparr>name := a0\<rparr>;
               fset = NewFlagSet a0;
               usage = (\<lambda>w. snd (helpCmd_Run env c [] w));
               fset = (case Flags c of None \<Rightarrow> fset | Some decl \<Rightarrow> decl fset)
           in case Parse env Stderr usage fset rest w of
                (Some err, fset, w) \<Rightarrow> Return (Some err) c w
              | (None, fset, w) \<Rightarrow>
                  if NArg fset = 0 then Return (Some ErrHelp) c (usage w)
                  else
                    (case get c (Arg fset 0) of
                       None \<Rightarrow>
                         (let w = Fprint (output c)
                                    (''Error: No such command: '' @ Quote env (Arg fset 0) @ NL @ NL) w
                          in Return (Some ErrHelp) c (usage w))
                     | Some cmd \<Rightarrow>
                         (let sub = NewFlagSet (Name cmd);
                              sub_usage = (\<lambda>w. snd (helpCmd_Run env c [Name cmd] w));
                              sub = Command_Flags cmd sub
                          in case Parse env Stderr sub_usage sub (drop 1 (fs_args fset)) w of
                               (Some err, sub, w) \<Rightarrow> Return (Some err) c w
                             | (None, sub, w) \<Rightarrow>
                                 (case Command_Run env c cmd (fs_args sub) w of
                                    (err, w) \<Rightarrow> Return err c w)))))"

section \<open>Example programs\<close>

text \<open>
  The programs at which the theorems below are instantiated. The standard library
  functions are given on plain ASCII text: \<^verbatim>\<open>TrimSpace\<close> removes the six ASCII white
  space bytes from both ends, and \<^verbatim>\<open>Quote\<close> surrounds a text without quotes,
  backslashes and control bytes by double quotes.
\<close>

definition asciiSpace :: "char \<Rightarrow> bool" where
  "asciiSpace x = (x \<in> set [CHR 0x09, CHR 0x0A, CHR 0x0B, CHR 0x0C, CHR 0x0D, CHR 0x20])"

definition example_stdlib :: stdlib where
  "example_stdlib =
     \<lparr>Quote = (\<lambda>s. [CHR 0x22] @ s @ [CHR 0x22]),
      TrimSpace = (\<lambda>s. rev (dropWhile asciiSpace (rev (dropWhile asciiSpace s)))),
      Base_Args0 = ''prog''\<rparr>"

text \<open>
  The client state of the examples is the text of one variable. \<open>StringVar\<close> and
  \<open>BoolVar\<close> declare a flag bound to it, for a name not declared before (Go panics on
  a second declaration of a name). Declaring also stores the default in the variable,
  which the model leaves to the initial world: a declarator is a function on flag sets.
\<close>

definition StringVar :: "string \<Rightarrow> string \<Rightarrow> string \<Rightarrow> string FlagSet \<Rightarrow> string FlagSet" where
  "StringVar nm v u fs =
     fs\<lparr>formal := formal fs @
        [(nm, \<lparr>Usage = u, DefValue = v, ValueType = StringValue, ZeroString = [],
               Set = (\<lambda>x st. (None, x))\<rparr>)]\<rparr>"

definition BoolVar :: "string \<Rightarrow> string \<Rightarrow> string \<Rightarrow> string FlagSet \<Rightarrow> string FlagSet" where
  "BoolVar nm v u fs =
     fs\<lparr>formal := formal fs @
        [(nm, \<lparr>Usage = u, DefValue = v, ValueType = BoolValue, ZeroString = ''false'',
               Set = (\<lambda>x st.
                 if x \<in> set [''1'', ''t'', ''T'', ''TRUE'', ''true'', ''True'',
                              ''0'', ''f'', ''F'', ''FALSE'', ''false'', ''False'']
                 then (None, x) else (Some ''parse error'', st))\<rparr>)]\<rparr>"

text \<open>
  The command and the Commander of \<^verbatim>\<open>sub_test.go\<close>: the Commander writes to the
  buffer \<^verbatim>\<open>cout\<close>, here \<open>Buffer 0\<close>, the command to \<^verbatim>\<open>testout\<close>, here \<open>Buffer 1\<close>.
  The test's \<^verbatim>\<open>Run\<close> prints its first argument and panics without one; no test runs
  it, and here it prints the arguments it has.
\<close>

definition testCmd :: "string Command" where
  "testCmd = Cmd
     \<lparr>cmd_Name = ''test'',
      cmd_Desc = ''a simple test'',
      cmd_Help = NL @ ''This is just a simple test.'' @ NL @ ''No, really. That'' @ [CHR 0x27] @
                 ''s it.'' @ NL @ ''Probably.'' @ NL,
      cmd_Flags = StringVar ''flag'' ''test'' ''a flag test'',
      cmd_Run = (\<lambda>args w. (None, Fprint (Buffer 1) (concat (map (Quote example_stdlib) args)) w))\<rparr>"

definition test_Commander :: "string Commander" where
  "test_Commander =
     (let c = \<lparr>Output = Some (Buffer 0), Help = NL @ ''Even more help text.'' @ NL,
               Flags = None, name = [], commands = []\<rparr>;
          c = Register c (HelpCmd c);
          c = Register c testCmd
      in c)"

definition w0 :: "string world" where
  "w0 = \<lparr>written = (\<lambda>wr. []), vars = ''test''\<rparr>"

text \<open>The same Commander with a global flag \<^verbatim>\<open>-v\<close>.\<close>

definition verbose_Commander :: "string Commander" where
  "verbose_Commander = test_Commander\<lparr>Flags := Some (StringVar ''v'' [] ''verbosity'')\<rparr>"

text \<open>Two commands of one name, and a Commander with nothing registered.\<close>

definition first_a :: "string Command" where
  "first_a = Cmd
     \<lparr>cmd_Name = ''a'', cmd_Desc = ''first'', cmd_Help = [], cmd_Flags = (\<lambda>fset. fset),
      cmd_Run = (\<lambda>args w. (None, w))\<rparr>"

definition second_a :: "string Command" where
  "second_a = Cmd
     \<lparr>cmd_Name = ''a'', cmd_Desc = ''second'', cmd_Help = [], cmd_Flags = (\<lambda>fset. fset),
      cmd_Run = (\<lambda>args w. (None, w))\<rparr>"

definition empty_Commander :: "string Commander" where
  "empty_Commander = \<lparr>Output = None, Help = [], Flags = None, name = [], commands = []\<rparr>"

text \<open>A command that declares a boolean flag \<^verbatim>\<open>-help\<close> of its own.\<close>

definition verboseHelpCmd :: "string Command" where
  "verboseHelpCmd = Cmd
     \<lparr>cmd_Name = ''test'', cmd_Desc = ''a test'', cmd_Help = ''H'',
      cmd_Flags = BoolVar ''help'' ''false'' ''print the long form'',
      cmd_Run = (\<lambda>args w. (None, Fprint (Buffer 1) ''ran'' w))\<rparr>"

definition own_help_Commander :: "string Commander" where
  "own_help_Commander =
     Register
       \<lparr>Output = Some (Buffer 0), Help = [], Flags = None, name = [], commands = []\<rparr>
       verboseHelpCmd"

text \<open>
  A command that fails: it writes the value of the flag variable to \<open>Buffer 1\<close> and
  returns an error that carries its first argument. The Commander that holds it has
  the global flag \<^verbatim>\<open>-v\<close>.
\<close>

definition failingCmd :: "string Command" where
  "failingCmd = Cmd
     \<lparr>cmd_Name = ''fail'', cmd_Desc = ''a failure'', cmd_Help = [],
      cmd_Flags = StringVar ''flag'' ''test'' ''a flag test'',
      cmd_Run = (\<lambda>args w. (Some (CmdError (concat (take 1 args))), Fprint (Buffer 1) (vars w) w))\<rparr>"

definition failing_Commander :: "string Commander" where
  "failing_Commander =
     Register
       \<lparr>Output = Some (Buffer 0), Help = [], Flags = Some (StringVar ''v'' [] ''verbosity''),
        name = [], commands = []\<rparr>
       failingCmd"

section \<open>Notation for the statements\<close>

text \<open>
  The two \<^verbatim>\<open>Usage\<close> functions that \<^verbatim>\<open>Run\<close> installs, the flag set it parses the global
  flags with, the notice for an unknown command and one line of the command listing.
\<close>

abbreviation summary :: "stdlib \<Rightarrow> 's Commander \<Rightarrow> 's world \<Rightarrow> 's world" where
  "summary env c \<equiv> (\<lambda>w. snd (helpCmd_Run env c [] w))"

abbreviation detail :: "stdlib \<Rightarrow> 's Commander \<Rightarrow> 's Command \<Rightarrow> 's world \<Rightarrow> 's world" where
  "detail env c cmd \<equiv> (\<lambda>w. snd (helpCmd_Run env c [Name cmd] w))"

abbreviation global_set :: "'s Commander \<Rightarrow> string \<Rightarrow> 's FlagSet" where
  "global_set c a0 \<equiv> (case Flags c of None \<Rightarrow> NewFlagSet a0 | Some decl \<Rightarrow> decl (NewFlagSet a0))"


abbreviation command_line :: "'s Command \<Rightarrow> string" where
  "command_line cmd \<equiv> TAB @ Name cmd @ TAB @ TAB @ Desc cmd @ NL"

declare Search_loop.simps [simp del]

declare Parse_loop.simps [simp del]

declare helpCmd_Run.simps [simp del]

section \<open>The registry: what \<^verbatim>\<open>Register\<close> does\<close>

subsection \<open>The binary search\<close>

text \<open>
  Whatever \<open>f\<close> is, the index that the search answers is the length or an index at
  which \<open>f\<close> holds: the upper bound \<open>j\<close> only ever moves to such an index.
\<close>

lemma Search_loop_found:
  "i \<le> j \<Longrightarrow> j \<le> n \<Longrightarrow> (j < n \<longrightarrow> f j) \<Longrightarrow>
   Search_loop f i j \<le> n \<and> (Search_loop f i j < n \<longrightarrow> f (Search_loop f i j))"
proof (induction f i j rule: Search_loop.induct)
  case (1 f i j)
  show ?case
  proof (cases "i < j")
    case False
    then have "Search_loop f i j = i" by (simp add: Search_loop.simps [of f i j])
    with False "1.prems" show ?thesis by simp
  next
    case True
    define h where "h = (i + j) div 2"
    have hb: "i \<le> h" "h < j" using True by (simp_all add: h_def)
    show ?thesis
    proof (cases "f h")
      case True
      have "Search_loop f i j = Search_loop f i h"
        using \<open>i < j\<close> True by (simp add: Search_loop.simps [of f i j] h_def)
      moreover have "Search_loop f i h \<le> n \<and> (Search_loop f i h < n \<longrightarrow> f (Search_loop f i h))"
        using "1.IH"(2) [of h] \<open>i < j\<close> True hb "1.prems" by (simp add: h_def)
      ultimately show ?thesis by simp
    next
      case False
      have "Search_loop f i j = Search_loop f (h + 1) j"
        using \<open>i < j\<close> False by (simp add: Search_loop.simps [of f i j] h_def)
      moreover have "Search_loop f (h + 1) j \<le> n \<and>
          (Search_loop f (h + 1) j < n \<longrightarrow> f (Search_loop f (h + 1) j))"
        using "1.IH"(1) [of h] \<open>i < j\<close> False hb "1.prems" by (simp add: h_def)
      ultimately show ?thesis by simp
    qed
  qed
qed

text \<open>
  On an \<open>f\<close> that stays true once it is true, the search answers the border: \<open>f\<close>
  fails below the answer and holds from it on.
\<close>

lemma Search_loop_border:
  "i \<le> j \<Longrightarrow> j \<le> n \<Longrightarrow> \<forall>k<i. \<not> f k \<Longrightarrow> \<forall>k. j \<le> k \<longrightarrow> k < n \<longrightarrow> f k \<Longrightarrow>
   \<forall>a b. a \<le> b \<longrightarrow> b < n \<longrightarrow> f a \<longrightarrow> f b \<Longrightarrow>
   (\<forall>k < Search_loop f i j. \<not> f k) \<and> (\<forall>k. Search_loop f i j \<le> k \<longrightarrow> k < n \<longrightarrow> f k)"
proof (induction f i j rule: Search_loop.induct)
  case (1 f i j)
  show ?case
  proof (cases "i < j")
    case False
    then have "Search_loop f i j = i" by (simp add: Search_loop.simps [of f i j])
    with False "1.prems" show ?thesis by simp
  next
    case True
    define h where "h = (i + j) div 2"
    have hb: "i \<le> h" "h < j" using True by (simp_all add: h_def)
    have mono: "\<And>a b. a \<le> b \<Longrightarrow> b < n \<Longrightarrow> f a \<Longrightarrow> f b" using "1.prems"(5) by blast
    show ?thesis
    proof (cases "f h")
      case True
      have eq: "Search_loop f i j = Search_loop f i h"
        using \<open>i < j\<close> True by (simp add: Search_loop.simps [of f i j] h_def)
      have up: "\<forall>k. h \<le> k \<longrightarrow> k < n \<longrightarrow> f k" using mono True by blast
      show ?thesis
        unfolding eq
        using "1.IH"(2) [of h] \<open>i < j\<close> True hb "1.prems" up by (simp add: h_def)
    next
      case False
      have eq: "Search_loop f i j = Search_loop f (h + 1) j"
        using \<open>i < j\<close> False by (simp add: Search_loop.simps [of f i j] h_def)
      have "h < n" using hb "1.prems" by simp
      have low: "\<forall>k<h + 1. \<not> f k"
      proof (intro allI impI)
        fix k assume "k < h + 1"
        then have "k \<le> h" by simp
        then show "\<not> f k" using mono [of k h] \<open>h < n\<close> False by blast
      qed
      show ?thesis
        unfolding eq
        using "1.IH"(1) [of h] \<open>i < j\<close> False hb "1.prems" low by (simp add: h_def)
    qed
  qed
qed

lemma Search_found:
  "Search n f \<le> n \<and> (Search n f < n \<longrightarrow> f (Search n f))"
  unfolding Search_def using Search_loop_found [of 0 n n f] by simp

lemma Search_border:
  assumes "\<forall>a b. a \<le> b \<longrightarrow> b < n \<longrightarrow> f a \<longrightarrow> f b"
  shows "(\<forall>k < Search n f. \<not> f k) \<and> (\<forall>k. Search n f \<le> k \<longrightarrow> k < n \<longrightarrow> f k)"
  unfolding Search_def using Search_loop_border [of 0 n n f] assms by simp

subsection \<open>Registering\<close>

text \<open>
  The search of \<^verbatim>\<open>Register\<close> asks for an entry whose name is strictly above the new
  one's. At the index it answers the names are therefore never equal, the branch that
  replaces an entry is never taken, and every call inserts.
\<close>

lemma Register_inserts:
  "commands (Register c cmd) =
     (let i = Search (length (commands c)) (\<lambda>i. Name cmd < Name (commands c ! i))
      in take i (commands c) @ cmd # drop i (commands c))"
proof -
  define f where "f = (\<lambda>i. Name cmd < Name (commands c ! i))"
  define i where "i = Search (length (commands c)) f"
  have "i < length (commands c) \<longrightarrow> f i"
    using Search_found [of "length (commands c)" f] by (simp add: i_def)
  then have "\<not> (i < length (commands c) \<and> Name cmd = Name (commands c ! i))"
    by (auto simp: f_def)
  then show ?thesis
    by (auto simp: Register_def Let_def f_def [symmetric] i_def [symmetric])
qed

lemma Register_length: "length (commands (Register c cmd)) = Suc (length (commands c))"
  using Search_found [of "length (commands c)" "\<lambda>i. Name cmd < Name (commands c ! i)"]
  by (simp add: Register_inserts Let_def)

lemma Register_sorted:
  assumes "sorted (map Name (commands c))"
  shows "sorted (map Name (commands (Register c cmd)))"
proof -
  define cs where "cs = commands c"
  define f where "f = (\<lambda>i. Name cmd < Name (cs ! i))"
  define i where "i = Search (length cs) f"
  have srt: "sorted (map Name cs)" using assms by (simp add: cs_def)
  have mono: "\<forall>a b. a \<le> b \<longrightarrow> b < length cs \<longrightarrow> f a \<longrightarrow> f b"
  proof (intro allI impI)
    fix a b assume ab: "a \<le> b" "b < length cs" "f a"
    have "map Name cs ! a \<le> map Name cs ! b"
      using srt ab by (simp add: sorted_iff_nth_mono)
    then show "f b" using ab by (simp add: f_def)
  qed
  have border: "(\<forall>k < i. \<not> f k) \<and> (\<forall>k. i \<le> k \<longrightarrow> k < length cs \<longrightarrow> f k)"
    unfolding i_def using Search_border [OF mono] .
  have ile: "i \<le> length cs" using Search_found [of "length cs" f] by (simp add: i_def)
  have low: "\<forall>x \<in> set (take i cs). Name x \<le> Name cmd"
  proof
    fix x assume "x \<in> set (take i cs)"
    then obtain k where k: "k < i" "x = cs ! k" using ile
      by (auto simp: in_set_conv_nth)
    then have "\<not> f k" using border by blast
    then show "Name x \<le> Name cmd" using k by (simp add: f_def)
  qed
  have high: "\<forall>x \<in> set (drop i cs). Name cmd \<le> Name x"
  proof
    fix x assume "x \<in> set (drop i cs)"
    then obtain k where k: "k < length cs - i" "x = cs ! (i + k)"
      by (auto simp: in_set_conv_nth)
    then have "f (i + k)" using border by simp
    then show "Name cmd \<le> Name x" using k by (simp add: f_def)
  qed
  have "sorted (map Name (take i cs))" "sorted (map Name (drop i cs))"
    using srt by (simp_all add: take_map [symmetric] drop_map [symmetric] sorted_wrt_take sorted_wrt_drop)
  moreover have "\<forall>x \<in> set (take i cs). \<forall>y \<in> set (drop i cs). Name x \<le> Name y"
    using low high by (meson order_trans)
  ultimately have "sorted (map Name (take i cs @ cmd # drop i cs))"
    using low high by (auto simp: sorted_append)
  then show ?thesis
    by (simp add: Register_inserts Let_def cs_def [symmetric] f_def [symmetric] i_def [symmetric])
qed

lemma Register_all_sorted:
  "sorted (map Name (commands c)) \<Longrightarrow> sorted (map Name (commands (foldl Register c cmds)))"
  by (induction cmds arbitrary: c) (simp_all add: Register_sorted)

lemma Register_output [simp]: "output (Register c cmd) = output c"
  by (simp add: Register_def output_def Let_def)

lemma Register_all_output [simp]: "output (foldl Register c cmds) = output c"
  by (induction cmds arbitrary: c) simp_all

section \<open>Writing, looking up, parsing\<close>

lemma Fprint_empty [simp]: "Fprint wr [] w = w"
  by (simp add: Fprint_def)

lemma Fprint_Fprint: "Fprint wr b (Fprint wr a w) = Fprint wr (a @ b) w"
  by (simp add: Fprint_def)

lemma written_Fprint:
  "written (Fprint wr s w) wr' = (if wr' = wr then written w wr @ s else written w wr')"
  by (simp add: Fprint_def)

lemma vars_Fprint [simp]: "vars (Fprint wr s w) = vars w"
  by (simp add: Fprint_def)


lemma foldl_Fprint:
  "foldl (\<lambda>w x. Fprint wr (f x) w) w xs = Fprint wr (concat (map f xs)) w"
  by (induction xs arbitrary: w) (simp_all add: Fprint_Fprint)


lemma get_loop_Some: "get_loop cs nm = Some cmd \<Longrightarrow> Name cmd = nm \<and> cmd \<in> set cs"
  by (induction cs) (auto split: if_splits)

lemma get_name_update [simp]: "get (c\<lparr>name := a0\<rparr>) nm = get c nm"
  by (simp add: get_def)

lemma output_name_update [simp]: "output (c\<lparr>name := a0\<rparr>) = output c"
  by (simp add: output_def)






lemma Parse_non_flag:
  assumes "length s < 2 \<or> hd s \<noteq> CHR ''-''"
  shows "Parse env out usage fs (s # etc) w = (None, fs\<lparr>fs_args := s # etc\<rparr>, w)"
proof -
  have "length s < 2 \<or> s ! 0 \<noteq> CHR ''-''"
    using assms by (cases s) auto
  then show ?thesis
    by (simp add: Parse_def Parse_loop.simps parseOne_def)
qed

lemma Parse_help_flag:
  assumes "hf \<in> {''-h'', ''--h'', ''-help'', ''--help''}"
      and "map_of (formal fs) (dropWhile (\<lambda>x. x = CHR ''-'') hf) = None"
  shows "Parse env out usage fs (hf # etc) w = (Some ErrHelp, fs\<lparr>fs_args := hf # etc\<rparr>, usage w)"
  using assms
  by (auto simp: Parse_def Parse_loop.simps parseOne_def split_value_def Let_def)

section \<open>What the help command writes\<close>

lemma flag_line_not_empty: "flag_line env nm fl \<noteq> []"
  by (simp add: flag_line_def Let_def NL_def split: prod.splits)

lemma PrintDefaults_empty: "PrintDefaults env fs = [] \<longleftrightarrow> formal fs = []"
proof
  assume e: "PrintDefaults env fs = []"
  show "formal fs = []"
  proof (rule ccontr)
    assume "formal fs \<noteq> []"
    then obtain nm fl where "(nm, fl) \<in> set (formal fs)"
      by (cases "formal fs") auto
    then have "(nm, fl) \<in> set (sort_key fst (formal fs))"
      by simp
    then have "flag_line env nm fl = []"
      using e by (auto simp: PrintDefaults_def)
    then show False by (simp add: flag_line_not_empty)
  qed
next
  assume "formal fs = []"
  then show "PrintDefaults env fs = []" by (simp add: PrintDefaults_def)
qed

lemma summary_eq:
  "helpCmd_Run env c [] w =
     (None,
      (let nm = (if name c = [] then Base_Args0 env else name c);
           help_text = (if Help c = [] then [] else NL @ TrimSpace env (Help c) @ NL);
           listing = NL @ ''Commands:'' @ NL @ concat (map command_line (commands c))
       in case Flags c of
            None \<Rightarrow>
              Fprint (output c)
                (''Usage: '' @ nm @ '' <subcommand> [subcommand arguments]'' @ NL @
                 help_text @ listing) w
          | Some decl \<Rightarrow>
              Fprint (output c) listing
                (Fprint Stderr (PrintDefaults env (decl (NewFlagSet nm)))
                  (Fprint (output c)
                    (''Usage: '' @ nm @ '' [global options] <subcommand> [subcommand arguments]'' @ NL @
                     help_text @ NL @ ''Global Options:'' @ NL) w))))"
  by (simp add: helpCmd_Run.simps Let_def foldl_Fprint Fprint_Fprint split: option.splits)

lemma detail_eq:
  assumes "get c nm = Some cmd"
  shows "helpCmd_Run env c (nm # etc) w =
     (None,
      Fprint (output c)
        ((if Command_Help cmd = [] then [] else TrimSpace env (Command_Help cmd) @ NL) @
         (if formal (Command_Flags cmd (NewFlagSet (Name cmd))) = [] then []
          else NL @ ''Options:'' @ NL @ PrintDefaults env (Command_Flags cmd (NewFlagSet (Name cmd)))))
        w)"
  using assms
  by (simp add: helpCmd_Run.simps Let_def Fprint_Fprint PrintDefaults_empty)


lemma listing_last:
  "\<exists>pre. written (summary env c w) (output c) =
      written w (output c) @ pre @ concat (map command_line (commands c))"
  by (cases "Flags c") (auto simp: summary_eq Let_def written_Fprint)

section \<open>The stages of \<^verbatim>\<open>Run\<close>\<close>

lemma Run_nil: "Run env c [] w = Panic IndexOutOfRange"
  by (simp add: Run_def)





lemma Run_sub_error:
  assumes "Parse env Stderr (summary env (c\<lparr>name := a0\<rparr>)) (global_set c a0) rest w = (None, fs', w')"
      and "fs_args fs' = nm # etc"
      and "get c nm = Some cmd"
      and "Parse env Stderr (detail env (c\<lparr>name := a0\<rparr>) cmd)
             (Command_Flags cmd (NewFlagSet (Name cmd))) etc w' = (Some err, sub', w'')"
  shows "Run env c (a0 # rest) w = Return (Some err) (c\<lparr>name := a0\<rparr>) w''"
  using assms by (simp add: Run_def NArg_def Arg_def Let_def)

lemma Run_execute:
  assumes "Parse env Stderr (summary env (c\<lparr>name := a0\<rparr>)) (global_set c a0) rest w = (None, fs', w')"
      and "fs_args fs' = nm # etc"
      and "get c nm = Some cmd"
      and "Parse env Stderr (detail env (c\<lparr>name := a0\<rparr>) cmd)
             (Command_Flags cmd (NewFlagSet (Name cmd))) etc w' = (None, sub', w'')"
      and "Command_Run env (c\<lparr>name := a0\<rparr>) cmd (fs_args sub') w'' = (r, w''')"
  shows "Run env c (a0 # rest) w = Return r (c\<lparr>name := a0\<rparr>) w'''"
  using assms by (simp add: Run_def NArg_def Arg_def Let_def)

section \<open>The examples, evaluated\<close>

lemma test_Commander_eq:
  "test_Commander =
     \<lparr>Output = Some (Buffer 0), Help = NL @ ''Even more help text.'' @ NL, Flags = None,
      name = [], commands = [helpCmd, testCmd]\<rparr>"
  by (simp add: test_Commander_def Register_def Search_def Search_loop.simps HelpCmd_def
      testCmd_def Let_def)

lemma verbose_Commander_eq:
  "verbose_Commander =
     \<lparr>Output = Some (Buffer 0), Help = NL @ ''Even more help text.'' @ NL,
      Flags = Some (StringVar ''v'' [] ''verbosity''),
      name = [], commands = [helpCmd, testCmd]\<rparr>"
  by (simp add: verbose_Commander_def test_Commander_eq)

lemma own_help_Commander_eq:
  "own_help_Commander =
     \<lparr>Output = Some (Buffer 0), Help = [], Flags = None, name = [], commands = [verboseHelpCmd]\<rparr>"
  by (simp add: own_help_Commander_def Register_def Search_def Search_loop.simps)

lemma failing_Commander_eq:
  "failing_Commander =
     \<lparr>Output = Some (Buffer 0), Help = [], Flags = Some (StringVar ''v'' [] ''verbosity''),
      name = [], commands = [failingCmd]\<rparr>"
  by (simp add: failing_Commander_def Register_def Search_def Search_loop.simps)

lemmas eval_defs =
  Run_def Parse_def Parse_loop.simps parseOne_def split_value_def set_flag_def failf_def
  IsBoolFlag_def NArg_def Arg_def get_def Let_def helpCmd_Run.simps NewFlagSet_def output_def
  PrintDefaults_def flag_line_def UnquoteUsage_def type_name_def
  testCmd_def verboseHelpCmd_def StringVar_def BoolVar_def example_stdlib_def asciiSpace_def

text \<open>The two tests of \<^verbatim>\<open>sub_test.go\<close>, \<^verbatim>\<open>Simple Help\<close> and \<^verbatim>\<open>Subcommand Help\<close>.\<close>

lemma test_Simple_Help:
  "Run example_stdlib test_Commander [''subtest'', ''--help''] w0 =
   Return (Some ErrHelp) (test_Commander\<lparr>name := ''subtest''\<rparr>)
     (Fprint (Buffer 0)
        (''Usage: subtest <subcommand> [subcommand arguments]'' @ NL @
         NL @
         ''Even more help text.'' @ NL @
         NL @
         ''Commands:'' @ NL @
         TAB @ ''help'' @ TAB @ TAB @ ''show help for commands'' @ NL @
         TAB @ ''test'' @ TAB @ TAB @ ''a simple test'' @ NL)
        w0)"
  by (simp add: eval_defs test_Commander_eq Fprint_def NL_def TAB_def)

lemma test_Subcommand_Help:
  "Run example_stdlib test_Commander [''subtest'', ''test'', ''--help''] w0 =
   Return (Some ErrHelp) (test_Commander\<lparr>name := ''subtest''\<rparr>)
     (Fprint (Buffer 0)
        (''This is just a simple test.'' @ NL @
         ''No, really. That'' @ [CHR 0x27] @ ''s it.'' @ NL @
         ''Probably.'' @ NL @
         NL @
         ''Options:'' @ NL @
         ''  -flag string'' @ NL @
         ''    '' @ TAB @ ''a flag test (default '' @ [CHR 0x22] @ ''test'' @ [CHR 0x22] @ '')'' @ NL)
        w0)"
  by (simp add: eval_defs test_Commander_eq Fprint_def NL_def TAB_def)

section \<open>The claims\<close>

text \<open>
  \<^bold>\<open>C1\<close>. The claim: after any sequence of \<^verbatim>\<open>Register\<close> calls the registry holds at
  most one command per name, the one registered last, since registering an existing
  name replaces the entry. The code does otherwise: registering \<open>first_a\<close> and then
  \<open>second_a\<close>, both named \<open>a\<close>, leaves both in the registry, and \<^verbatim>\<open>get\<close> answers the
  one registered first.
\<close>

theorem C1_same_name_registered_twice:
  "commands (Register (Register empty_Commander first_a) second_a) = [first_a, second_a] \<and>
   Name first_a = Name second_a \<and> first_a \<noteq> second_a \<and>
   get (Register (Register empty_Commander first_a) second_a) ''a'' = Some first_a"
proof -
  have two: "commands (Register (Register empty_Commander first_a) second_a) = [first_a, second_a]"
    by (simp add: Register_def Search_def Search_loop.simps empty_Commander_def
        first_a_def second_a_def)
  have "first_a \<noteq> second_a"
    by (simp add: first_a_def second_a_def)
  moreover have "Name first_a = Name second_a"
    by (simp add: first_a_def second_a_def)
  moreover have "get (Register (Register empty_Commander first_a) second_a) ''a'' = Some first_a"
    by (simp add: get_def two) (simp add: first_a_def)
  ultimately show ?thesis using two by simp
qed

text \<open>
  \<^bold>\<open>C2\<close>. Whatever commands are registered, in whatever order, starting from a
  Commander with no commands, the registry is sorted by name; and the summary help
  ends with the lines of the commands in the order of the registry, so it lists them
  in the order of their names.
\<close>

theorem C2_registry_sorted_by_name:
  "sorted (map Name (commands (foldl Register (c\<lparr>commands := []\<rparr>) cmds))) \<and>
   (\<exists>pre. written (summary env (foldl Register (c\<lparr>commands := []\<rparr>) cmds) w) (output c) =
      written w (output c) @ pre @
      concat (map command_line (commands (foldl Register (c\<lparr>commands := []\<rparr>) cmds))))"
proof
  have "sorted (map Name (commands (c\<lparr>commands := []\<rparr>)))"
    by simp
  then show "sorted (map Name (commands (foldl Register (c\<lparr>commands := []\<rparr>) cmds)))"
    by (rule Register_all_sorted)
next
  have "output (c\<lparr>commands := []\<rparr>) = output c"
    by (simp add: output_def)
  then have "output (foldl Register (c\<lparr>commands := []\<rparr>) cmds) = output c"
    by simp
  then show "\<exists>pre. written (summary env (foldl Register (c\<lparr>commands := []\<rparr>) cmds) w) (output c) =
      written w (output c) @ pre @
      concat (map command_line (commands (foldl Register (c\<lparr>commands := []\<rparr>) cmds)))"
    using listing_last [of env "foldl Register (c\<lparr>commands := []\<rparr>) cmds" w] by simp
qed

theorem C2_registry_sorted_by_name_witness:
  "map Name (commands (foldl Register (empty_Commander\<lparr>commands := []\<rparr>)
      [testCmd, second_a, helpCmd, first_a])) = [''a'', ''a'', ''help'', ''test''] \<and>
   sorted (map Name (commands (foldl Register (empty_Commander\<lparr>commands := []\<rparr>)
      [testCmd, second_a, helpCmd, first_a])))"
proof -
  have "map Name (commands (foldl Register (empty_Commander\<lparr>commands := []\<rparr>)
      [testCmd, second_a, helpCmd, first_a])) = [''a'', ''a'', ''help'', ''test'']"
    by (simp add: Register_def Search_def Search_loop.simps empty_Commander_def
        testCmd_def first_a_def second_a_def)
  then show ?thesis
    using C2_registry_sorted_by_name [of empty_Commander "[testCmd, second_a, helpCmd, first_a]"
        example_stdlib w0]
    by simp
qed





text \<open>
  \<^bold>\<open>C5\<close>. When both flag sets parse and the name is registered, so that \<^verbatim>\<open>Run\<close>
  reaches the call of the command's \<^verbatim>\<open>Run\<close> method, what that method returns, an error or
  none, is what \<^verbatim>\<open>Run\<close> returns, in the world the method leaves.
\<close>

theorem C5_command_result_unchanged:
  assumes "Parse env Stderr (summary env (c\<lparr>name := a0\<rparr>)) (global_set c a0) rest w = (None, fs', w')"
      and "fs_args fs' = nm # etc"
      and "get c nm = Some cmd"
      and "Parse env Stderr (detail env (c\<lparr>name := a0\<rparr>) cmd)
             (Command_Flags cmd (NewFlagSet (Name cmd))) etc w' = (None, sub', w'')"
      and "Command_Run env (c\<lparr>name := a0\<rparr>) cmd (fs_args sub') w'' = (r, w''')"
  shows "Run env c (a0 # rest) w = Return r (c\<lparr>name := a0\<rparr>) w'''"
proof -
  have "Run env c (a0 # rest) w =
      (case Command_Run env (c\<lparr>name := a0\<rparr>) cmd (fs_args sub') w'' of
         (err, w) \<Rightarrow> Return err (c\<lparr>name := a0\<rparr>) w)"
    using assms(1-4) by (simp add: Run_def NArg_def Arg_def Let_def)
  then show ?thesis
    using assms(5) by simp
qed

theorem C5_command_result_unchanged_witness:
  "Run example_stdlib failing_Commander [''prog'', ''-v'', ''2'', ''fail'', ''-flag'', ''x'', ''arg0''] w0 =
     Return (Some (CmdError ''arg0'')) (failing_Commander\<lparr>name := ''prog''\<rparr>)
       (Fprint (Buffer 1) ''x'' (w0\<lparr>vars := ''x''\<rparr>)) \<and>
   Run example_stdlib verbose_Commander [''prog'', ''-v'', ''2'', ''test'', ''-flag'', ''x'', ''arg0''] w0 =
     Return None (verbose_Commander\<lparr>name := ''prog''\<rparr>)
       (Fprint (Buffer 1) ([CHR 0x22] @ ''arg0'' @ [CHR 0x22]) (w0\<lparr>vars := ''x''\<rparr>))"
proof -
  let ?gs = "(StringVar ''v'' [] ''verbosity'' (NewFlagSet ''prog''))"
  have g1: "Parse example_stdlib Stderr (summary example_stdlib (failing_Commander\<lparr>name := ''prog''\<rparr>))
      (global_set failing_Commander ''prog'') [''-v'', ''2'', ''fail'', ''-flag'', ''x'', ''arg0''] w0 =
      (None, ?gs\<lparr>fs_args := [''fail'', ''-flag'', ''x'', ''arg0'']\<rparr>, w0\<lparr>vars := ''2''\<rparr>)"
    by (simp add: failing_Commander_eq Parse_def Parse_loop.simps parseOne_def split_value_def
        set_flag_def IsBoolFlag_def StringVar_def NewFlagSet_def Let_def)
  have l1: "get failing_Commander ''fail'' = Some failingCmd"
    by (simp add: failing_Commander_eq get_def failingCmd_def)
  have s1: "Parse example_stdlib Stderr (detail example_stdlib (failing_Commander\<lparr>name := ''prog''\<rparr>) failingCmd)
      (Command_Flags failingCmd (NewFlagSet (Name failingCmd))) [''-flag'', ''x'', ''arg0''] (w0\<lparr>vars := ''2''\<rparr>) =
      (None, (Command_Flags failingCmd (NewFlagSet (Name failingCmd)))\<lparr>fs_args := [''arg0'']\<rparr>,
       w0\<lparr>vars := ''x''\<rparr>)"
    by (simp add: failingCmd_def Parse_def Parse_loop.simps parseOne_def split_value_def
        set_flag_def IsBoolFlag_def StringVar_def NewFlagSet_def Let_def w0_def)
  have r1: "Command_Run example_stdlib (failing_Commander\<lparr>name := ''prog''\<rparr>) failingCmd
      (fs_args ((Command_Flags failingCmd (NewFlagSet (Name failingCmd)))\<lparr>fs_args := [''arg0'']\<rparr>))
      (w0\<lparr>vars := ''x''\<rparr>) =
      (Some (CmdError ''arg0''), Fprint (Buffer 1) ''x'' (w0\<lparr>vars := ''x''\<rparr>))"
    by (simp add: failingCmd_def)
  have g2: "Parse example_stdlib Stderr (summary example_stdlib (verbose_Commander\<lparr>name := ''prog''\<rparr>))
      (global_set verbose_Commander ''prog'') [''-v'', ''2'', ''test'', ''-flag'', ''x'', ''arg0''] w0 =
      (None, ?gs\<lparr>fs_args := [''test'', ''-flag'', ''x'', ''arg0'']\<rparr>, w0\<lparr>vars := ''2''\<rparr>)"
    by (simp add: verbose_Commander_eq Parse_def Parse_loop.simps parseOne_def split_value_def
        set_flag_def IsBoolFlag_def StringVar_def NewFlagSet_def Let_def)
  have l2: "get verbose_Commander ''test'' = Some testCmd"
    by (simp add: verbose_Commander_eq get_def testCmd_def)
  have s2: "Parse example_stdlib Stderr (detail example_stdlib (verbose_Commander\<lparr>name := ''prog''\<rparr>) testCmd)
      (Command_Flags testCmd (NewFlagSet (Name testCmd))) [''-flag'', ''x'', ''arg0''] (w0\<lparr>vars := ''2''\<rparr>) =
      (None, (Command_Flags testCmd (NewFlagSet (Name testCmd)))\<lparr>fs_args := [''arg0'']\<rparr>,
       w0\<lparr>vars := ''x''\<rparr>)"
    by (simp add: testCmd_def Parse_def Parse_loop.simps parseOne_def split_value_def
        set_flag_def IsBoolFlag_def StringVar_def NewFlagSet_def Let_def w0_def)
  have r2: "Command_Run example_stdlib (verbose_Commander\<lparr>name := ''prog''\<rparr>) testCmd
      (fs_args ((Command_Flags testCmd (NewFlagSet (Name testCmd)))\<lparr>fs_args := [''arg0'']\<rparr>))
      (w0\<lparr>vars := ''x''\<rparr>) =
      (None, Fprint (Buffer 1) ([CHR 0x22] @ ''arg0'' @ [CHR 0x22]) (w0\<lparr>vars := ''x''\<rparr>))"
    by (simp add: testCmd_def example_stdlib_def)
  show ?thesis
    using C5_command_result_unchanged [OF g1 _ l1 s1 r1] C5_command_result_unchanged [OF g2 _ l2 s2 r2]
    by simp
qed



text \<open>
  \<^bold>\<open>C7\<close>, as amended. Let \<open>cmd\<close> be the command that the registry answers for its own
  name, with a name that the global parser does not read as a flag (shorter than two
  bytes, or not starting with \<^verbatim>\<open>-\<close>), with a long help text that is not empty, and
  with no flag of its own under the name of the help flag used (\<^verbatim>\<open>h\<close> or \<^verbatim>\<open>help\<close>).
  Then \<^verbatim>\<open>Run\<close> on the invocation name, the command's name, the help flag (\<^verbatim>\<open>-h\<close>,
  \<^verbatim>\<open>--h\<close>, \<^verbatim>\<open>-help\<close> or \<^verbatim>\<open>--help\<close>) and whatever follows writes to the output the
  trimmed help text and a newline, then, only if the command declares a flag, an empty
  line, \<^verbatim>\<open>Options:\<close> and the defaults of the command's flags; it returns
  \<^verbatim>\<open>flag.ErrHelp\<close>, and the world it returns differs from the one it started in by this
  text alone: the command's \<^verbatim>\<open>Run\<close> method is not called.
\<close>

theorem C7_help_flag_after_command_name:
  assumes "get c (Name cmd) = Some cmd"
      and "length (Name cmd) < 2 \<or> hd (Name cmd) \<noteq> CHR ''-''"
      and "Command_Help cmd \<noteq> []"
      and "hf \<in> {''-h'', ''--h'', ''-help'', ''--help''}"
      and "map_of (formal (Command_Flags cmd (NewFlagSet (Name cmd))))
             (dropWhile (\<lambda>x. x = CHR ''-'') hf) = None"
  shows "Run env c (a0 # Name cmd # hf # etc) w =
         Return (Some ErrHelp) (c\<lparr>name := a0\<rparr>)
           (Fprint (output c)
              (TrimSpace env (Command_Help cmd) @ NL @
               (if formal (Command_Flags cmd (NewFlagSet (Name cmd))) = [] then []
                else NL @ ''Options:'' @ NL @
                     PrintDefaults env (Command_Flags cmd (NewFlagSet (Name cmd)))))
              w)"
proof -
  let ?c = "c\<lparr>name := a0\<rparr>"
  let ?sub = "Command_Flags cmd (NewFlagSet (Name cmd))"
  have g: "Parse env Stderr (summary env ?c) (global_set c a0) (Name cmd # hf # etc) w =
      (None, (global_set c a0)\<lparr>fs_args := Name cmd # hf # etc\<rparr>, w)"
    by (rule Parse_non_flag [OF assms(2)])
  have a: "fs_args ((global_set c a0)\<lparr>fs_args := Name cmd # hf # etc\<rparr>) = Name cmd # hf # etc"
    by simp
  have p: "Parse env Stderr (detail env ?c cmd) ?sub (hf # etc) w =
      (Some ErrHelp, ?sub\<lparr>fs_args := hf # etc\<rparr>, detail env ?c cmd w)"
    by (rule Parse_help_flag [OF assms(4,5)])
  have "Run env c (a0 # Name cmd # hf # etc) w = Return (Some ErrHelp) ?c (detail env ?c cmd w)"
    by (rule Run_sub_error [OF g a assms(1) p])
  moreover have "get ?c (Name cmd) = Some cmd"
    using assms(1) by simp
  then have "detail env ?c cmd w =
      Fprint (output c)
        (TrimSpace env (Command_Help cmd) @ NL @
         (if formal ?sub = [] then [] else NL @ ''Options:'' @ NL @ PrintDefaults env ?sub))
        w"
    using assms(3) by (simp add: detail_eq)
  ultimately show ?thesis by simp
qed

theorem C7_help_flag_after_command_name_witness:
  "get test_Commander (Name testCmd) = Some testCmd \<and>
   Command_Help testCmd \<noteq> [] \<and>
   Run example_stdlib test_Commander [''subtest'', ''test'', ''--help''] w0 =
     Return (Some ErrHelp) (test_Commander\<lparr>name := ''subtest''\<rparr>)
       (Fprint (Buffer 0)
          (''This is just a simple test.'' @ NL @
           ''No, really. That'' @ [CHR 0x27] @ ''s it.'' @ NL @
           ''Probably.'' @ NL @
           NL @
           ''Options:'' @ NL @
           ''  -flag string'' @ NL @
           ''    '' @ TAB @ ''a flag test (default '' @ [CHR 0x22] @ ''test'' @ [CHR 0x22] @ '')'' @ NL)
          w0)"
proof -
  have l: "get test_Commander (Name testCmd) = Some testCmd"
    by (simp add: test_Commander_eq get_def) (simp add: testCmd_def)
  have n: "length (Name testCmd) < 2 \<or> hd (Name testCmd) \<noteq> CHR ''-''"
    by (simp add: testCmd_def)
  have h: "Command_Help testCmd \<noteq> []"
    by (simp add: testCmd_def NL_def)
  have f: "''--help'' \<in> {''-h'', ''--h'', ''-help'', ''--help''}"
    by simp
  have u: "map_of (formal (Command_Flags testCmd (NewFlagSet (Name testCmd))))
             (dropWhile (\<lambda>x. x = CHR ''-'') ''--help'') = None"
    by (simp add: testCmd_def StringVar_def NewFlagSet_def)
  have "Run example_stdlib test_Commander (''subtest'' # Name testCmd # ''--help'' # []) w0 =
     Return (Some ErrHelp) (test_Commander\<lparr>name := ''subtest''\<rparr>)
       (Fprint (Buffer 0)
          (''This is just a simple test.'' @ NL @
           ''No, really. That'' @ [CHR 0x27] @ ''s it.'' @ NL @
           ''Probably.'' @ NL @
           NL @
           ''Options:'' @ NL @
           ''  -flag string'' @ NL @
           ''    '' @ TAB @ ''a flag test (default '' @ [CHR 0x22] @ ''test'' @ [CHR 0x22] @ '')'' @ NL)
          w0)"
    unfolding C7_help_flag_after_command_name [OF l n h f u]
    by (simp add: test_Commander_eq output_def testCmd_def StringVar_def NewFlagSet_def
        PrintDefaults_def flag_line_def UnquoteUsage_def type_name_def example_stdlib_def
        asciiSpace_def NL_def TAB_def)
  then show ?thesis
    using l h by (simp add: testCmd_def)
qed

text \<open>
  The claim C7 as it stands, for every registered command with a long help text, fails
  for a command that declares a flag \<^verbatim>\<open>-help\<close> of its own: the flag package treats
  \<^verbatim>\<open>--help\<close> as a request for help only when no flag of that name is declared. For
  such a command \<^verbatim>\<open>Run\<close> on \<^verbatim>\<open>prog test --help\<close> sets the flag, calls the command's
  \<^verbatim>\<open>Run\<close> method and returns its result; nothing is written to the output.
\<close>

theorem C7_own_help_flag_runs_the_command:
  "get own_help_Commander (Name verboseHelpCmd) = Some verboseHelpCmd \<and>
   Command_Help verboseHelpCmd \<noteq> [] \<and>
   Run example_stdlib own_help_Commander [''prog'', ''test'', ''--help''] w0 =
     Return None (own_help_Commander\<lparr>name := ''prog''\<rparr>)
       (Fprint (Buffer 1) ''ran'' (w0\<lparr>vars := ''true''\<rparr>))"
proof -
  have "get own_help_Commander (Name verboseHelpCmd) = Some verboseHelpCmd"
    by (simp add: own_help_Commander_eq get_def)
  moreover have "Command_Help verboseHelpCmd \<noteq> []"
    by (simp add: verboseHelpCmd_def)
  moreover have "Run example_stdlib own_help_Commander [''prog'', ''test'', ''--help''] w0 =
     Return None (own_help_Commander\<lparr>name := ''prog''\<rparr>)
       (Fprint (Buffer 1) ''ran'' (w0\<lparr>vars := ''true''\<rparr>))"
    by (simp add: eval_defs own_help_Commander_eq)
  ultimately show ?thesis by simp
qed

text \<open>
  \<^bold>\<open>C8\<close>. What the summary help writes, whatever the Commander: to the output the line
  \<^verbatim>\<open>Usage: <name> <subcommand> [subcommand arguments]\<close>, with \<^verbatim>\<open> [global options]\<close>
  after the name exactly when a global declarator is set (the name is the invocation
  name, or the base name of the program when none is recorded); the help text, if any;
  exactly when a global declarator is set, the heading \<^verbatim>\<open>Global Options:\<close>, followed by
  the defaults of the global flags, which go to the standard error stream; and the
  listing of the commands.
\<close>

theorem C8_summary_usage_line:
  "helpCmd_Run env c [] w =
     (None,
      (let nm = (if name c = [] then Base_Args0 env else name c);
           help_text = (if Help c = [] then [] else NL @ TrimSpace env (Help c) @ NL);
           listing = NL @ ''Commands:'' @ NL @ concat (map command_line (commands c))
       in case Flags c of
            None \<Rightarrow>
              Fprint (output c)
                (''Usage: '' @ nm @ '' <subcommand> [subcommand arguments]'' @ NL @
                 help_text @ listing) w
          | Some decl \<Rightarrow>
              Fprint (output c) listing
                (Fprint Stderr (PrintDefaults env (decl (NewFlagSet nm)))
                  (Fprint (output c)
                    (''Usage: '' @ nm @ '' [global options] <subcommand> [subcommand arguments]'' @ NL @
                     help_text @ NL @ ''Global Options:'' @ NL) w))))"
proof (cases "Flags c")
  case None
  then show ?thesis
    by (simp add: helpCmd_Run.simps Let_def foldl_Fprint Fprint_Fprint)
next
  case (Some decl)
  then show ?thesis
    by (simp add: helpCmd_Run.simps Let_def foldl_Fprint Fprint_Fprint)
qed

theorem C8_summary_usage_line_witness:
  "helpCmd_Run example_stdlib (test_Commander\<lparr>name := ''subtest''\<rparr>) [] w0 =
     (None,
      Fprint (Buffer 0)
        (''Usage: subtest <subcommand> [subcommand arguments]'' @ NL @
         NL @ ''Even more help text.'' @ NL @
         NL @ ''Commands:'' @ NL @
         TAB @ ''help'' @ TAB @ TAB @ ''show help for commands'' @ NL @
         TAB @ ''test'' @ TAB @ TAB @ ''a simple test'' @ NL) w0) \<and>
   helpCmd_Run example_stdlib (verbose_Commander\<lparr>name := ''subtest''\<rparr>) [] w0 =
     (None,
      Fprint (Buffer 0)
        (NL @ ''Commands:'' @ NL @
         TAB @ ''help'' @ TAB @ TAB @ ''show help for commands'' @ NL @
         TAB @ ''test'' @ TAB @ TAB @ ''a simple test'' @ NL)
        (Fprint Stderr (''  -v string'' @ NL @ ''    '' @ TAB @ ''verbosity'' @ NL)
          (Fprint (Buffer 0)
            (''Usage: subtest [global options] <subcommand> [subcommand arguments]'' @ NL @
             NL @ ''Even more help text.'' @ NL @
             NL @ ''Global Options:'' @ NL) w0)))"
proof -
  have "helpCmd_Run example_stdlib (test_Commander\<lparr>name := ''subtest''\<rparr>) [] w0 =
     (None,
      Fprint (Buffer 0)
        (''Usage: subtest <subcommand> [subcommand arguments]'' @ NL @
         NL @ ''Even more help text.'' @ NL @
         NL @ ''Commands:'' @ NL @
         TAB @ ''help'' @ TAB @ TAB @ ''show help for commands'' @ NL @
         TAB @ ''test'' @ TAB @ TAB @ ''a simple test'' @ NL) w0)"
    unfolding C8_summary_usage_line
    by (simp add: test_Commander_eq output_def testCmd_def example_stdlib_def asciiSpace_def
        NL_def TAB_def)
  moreover have "helpCmd_Run example_stdlib (verbose_Commander\<lparr>name := ''subtest''\<rparr>) [] w0 =
     (None,
      Fprint (Buffer 0)
        (NL @ ''Commands:'' @ NL @
         TAB @ ''help'' @ TAB @ TAB @ ''show help for commands'' @ NL @
         TAB @ ''test'' @ TAB @ TAB @ ''a simple test'' @ NL)
        (Fprint Stderr (''  -v string'' @ NL @ ''    '' @ TAB @ ''verbosity'' @ NL)
          (Fprint (Buffer 0)
            (''Usage: subtest [global options] <subcommand> [subcommand arguments]'' @ NL @
             NL @ ''Even more help text.'' @ NL @
             NL @ ''Global Options:'' @ NL) w0)))"
    unfolding C8_summary_usage_line
    by (simp add: verbose_Commander_eq output_def testCmd_def example_stdlib_def asciiSpace_def
        StringVar_def NewFlagSet_def PrintDefaults_def flag_line_def UnquoteUsage_def
        type_name_def NL_def TAB_def)
  ultimately show ?thesis by simp
qed





end
